theory Spec2Isabelle
  imports Complex_Main "HOL-Library.Multiset"
begin

section \<open>Python values and string helpers\<close>

text \<open>
  Text is modelled as \<open>string\<close>: a character is a code point below 256, and
  \<open>str.isspace\<close> and \<open>str.lower\<close> are written out for all of these code points.
  A float of the catalog is a rational, an infinity or NaN.
\<close>

datatype pynum = Num rat | PosInf | NegInf | NaN

text \<open>Float comparison \<open>a <= b\<close>: false as soon as one side is NaN.\<close>

fun pynum_le :: "pynum \<Rightarrow> pynum \<Rightarrow> bool" where
  "pynum_le NaN b = False"
| "pynum_le a NaN = False"
| "pynum_le NegInf b = True"
| "pynum_le a PosInf = True"
| "pynum_le (Num a) (Num b) = (a \<le> b)"
| "pynum_le PosInf b = False"
| "pynum_le a NegInf = False"

datatype py_error = RegexError | IndexError

text \<open>\<open>str(query)\<close> for the two kinds of argument the function is given.\<close>

definition py_str :: "string option \<Rightarrow> string" where
  "py_str query = (case query of None \<Rightarrow> ''None'' | Some s \<Rightarrow> s)"

text \<open>
  \<open>str.isspace\<close> on one character: tab, LF, VT, FF, CR, FS, GS, RS, US, space, the next-line
  control U+0085 and the no-break space U+00A0. These are the characters \<open>str.strip\<close>
  removes from both ends.
\<close>

definition py_isspace :: "char \<Rightarrow> bool" where
  "py_isspace c =
     ((of_char c :: nat) \<in> set [9, 10, 11, 12, 13, 28, 29, 30, 31, 32, 133, 160])"

definition py_strip :: "string \<Rightarrow> string" where
  "py_strip s = rev (dropWhile py_isspace (rev (dropWhile py_isspace s)))"

text \<open>
  \<open>str.lower\<close> on one character: the letters A to Z and the capital letters U+00C0 to
  U+00DE (the multiplication sign U+00D7 is not one) move up by 32; every other character
  stays.
\<close>

definition lower_char :: "char \<Rightarrow> char" where
  "lower_char c =
     (let k = (of_char c :: nat)
      in if (65 \<le> k \<and> k \<le> 90) \<or> (192 \<le> k \<and> k \<le> 222 \<and> k \<noteq> 215) then char_of (k + 32)
         else c)"

definition py_lower :: "string \<Rightarrow> string" where
  "py_lower s = map lower_char s"

text \<open>Python's \<open>pat in text\<close> on strings.\<close>

fun starts_with :: "'a list \<Rightarrow> 'a list \<Rightarrow> bool" where
  "starts_with [] ys = True"
| "starts_with (x # xs) [] = False"
| "starts_with (x # xs) (y # ys) = (x = y \<and> starts_with xs ys)"

fun py_in :: "'a list \<Rightarrow> 'a list \<Rightarrow> bool" where
  "py_in pat [] = (pat = [])"
| "py_in pat (c # cs) = (starts_with pat (c # cs) \<or> py_in pat cs)"

text \<open>
  The slice \<open>xs[start:stop]\<close> of a list, an index or a frame (\<open>iloc\<close>): a negative bound
  counts from the end, every bound is clipped to the length, and a stop at or before the
  start gives the empty slice. \<open>xs[:stop]\<close> is \<open>xs[0:stop]\<close>.
\<close>

definition py_slice :: "int \<Rightarrow> int \<Rightarrow> 'a list \<Rightarrow> 'a list" where
  "py_slice start stop xs =
     (let n = int (length xs);
          lo = (if start < 0 then max (start + n) 0 else min start n);
          hi = (if stop < 0 then max (stop + n) 0 else min stop n)
      in take (nat (hi - lo)) (drop (nat lo) xs))"

text \<open>
  \<open>sorted(xs, key=key, reverse=True)\<close>: Python's sort is stable and stays stable with
  \<open>reverse=True\<close>, so elements with equal keys keep their order.
\<close>

definition sorted_reverse :: "('a \<Rightarrow> 'k::linordered_idom) \<Rightarrow> 'a list \<Rightarrow> 'a list" where
  "sorted_reverse key xs = sort_key (\<lambda>x. - key x) xs"

section \<open>The catalog\<close>

text \<open>
  One row of the data frame after loading. A missing \<open>Title\<close> cell is \<open>None\<close> (NaN);
  the other text columns were filled at load time.
\<close>

record drama =
  Title :: "string option"
  Genres :: string
  Mood_Tags :: string
  Summary :: string
  Main_Leads :: string
  Year :: string
  Personal_rating_out_of_10 :: pynum

subsection \<open>Loading the rating column (line 16)\<close>

text \<open>
  A cell as \<open>read_csv\<close> leaves it: a number already (NaN for an empty cell), or text.
  \<open>parse\<close> is the number parser of \<open>pd.to_numeric\<close>; with \<open>errors="coerce"\<close> a
  text it rejects becomes NaN. \<open>fillna(0)\<close> then replaces every NaN.
\<close>

datatype cell = CNum pynum | CStr string

definition to_numeric :: "(string \<Rightarrow> pynum option) \<Rightarrow> cell \<Rightarrow> pynum" where
  "to_numeric parse c =
     (case c of
        CNum v \<Rightarrow> v
      | CStr s \<Rightarrow> (case parse s of None \<Rightarrow> NaN | Some v \<Rightarrow> v))"

definition fillna :: "pynum \<Rightarrow> pynum \<Rightarrow> pynum" where
  "fillna d v = (if v = NaN then d else v)"

definition load_rating :: "(string \<Rightarrow> pynum option) \<Rightarrow> cell \<Rightarrow> pynum" where
  "load_rating parse c = fillna (Num 0) (to_numeric parse c)"

definition load_ratings :: "(string \<Rightarrow> pynum option) \<Rightarrow> cell list \<Rightarrow> pynum list" where
  "load_ratings parse col = map (load_rating parse) col"

section \<open>recommend\<close>

text \<open>
  The libraries are parameters of the model:
  \<^item> \<open>partial_ratio q text\<close> is \<open>fuzz.partial_ratio\<close>, an integer from 0 to 100;
  \<^item> \<open>str_contains pat\<close> is \<open>Series.str.contains(pat)\<close> with its default
    \<open>regex=True\<close>: the pattern is compiled as a regular expression (\<open>None\<close> when
    \<open>re.compile\<close> raises \<open>re.error\<close>) and the test on one text is
    \<open>regex.search(text) is not None\<close>;
  \<^item> \<open>cosine_sim i j\<close> is the entry of the matrix built at start-up, which has one row
    and one column per record; its entries are finite floats, read as rationals.
\<close>

definition search_blob :: "drama \<Rightarrow> string" where
  "search_blob r =
     py_lower ((case Title r of None \<Rightarrow> [] | Some t \<Rightarrow> t) @ '' '' @ Genres r @ '' '' @ Mood_Tags r)"

definition normalize_query :: "string option \<Rightarrow> string" where
  "normalize_query query = py_lower (py_strip (py_str query))"

text \<open>The title as the f-string of the header prints it.\<close>

definition title_str :: "drama \<Rightarrow> string" where
  "title_str r = (case Title r of None \<Rightarrow> ''nan'' | Some t \<Rightarrow> t)"

text \<open>\<open>[df.iloc[i].to_dict() for i in recommended_indices]\<close>; \<open>iloc\<close> raises out of range.\<close>

definition to_records :: "drama list \<Rightarrow> nat list \<Rightarrow> py_error + drama list" where
  "to_records df idxs =
     (if list_all (\<lambda>i. i < length df) idxs then Inr (map (\<lambda>i. df ! i) idxs)
      else Inl IndexError)"

text \<open>Lines 69 to 71: every record's score against the query, best first.\<close>

definition fuzzy_matches :: "(string \<Rightarrow> string \<Rightarrow> nat) \<Rightarrow> drama list \<Rightarrow> string \<Rightarrow> (nat \<times> nat) list" where
  "fuzzy_matches partial_ratio df q =
     sorted_reverse (\<lambda>x. int (snd x)) (enumerate 0 (map (partial_ratio q) (map search_blob df)))"

text \<open>Lines 77 and 78 before the slice: row \<open>idx\<close> of the matrix, most similar first.\<close>

definition similar_sorted :: "(nat \<Rightarrow> nat \<Rightarrow> rat) \<Rightarrow> drama list \<Rightarrow> nat \<Rightarrow> (nat \<times> rat) list" where
  "similar_sorted cosine_sim df idx =
     sorted_reverse snd (enumerate 0 (map (cosine_sim idx) [0..<length df]))"

text \<open>Line 83: the index of \<open>df[search_space.str.contains(query)]\<close>, given the compiled test.\<close>

definition filtered_index :: "(string \<Rightarrow> bool) \<Rightarrow> drama list \<Rightarrow> nat list" where
  "filtered_index test df =
     map fst (filter (\<lambda>x. test (snd x)) (enumerate 0 (map search_blob df)))"

definition recommend ::
  "(string \<Rightarrow> string \<Rightarrow> nat) \<Rightarrow> (string \<Rightarrow> (string \<Rightarrow> bool) option) \<Rightarrow> drama list \<Rightarrow>
   (nat \<Rightarrow> nat \<Rightarrow> rat) \<Rightarrow> string option \<Rightarrow> int \<Rightarrow> py_error + (string \<times> drama list)" where
  "recommend partial_ratio str_contains df cosine_sim query num_recommendations =
     (let q = normalize_query query in
      if q = [] then Inr (''Please enter a drama name or keyword.'', [])
      else
        let matches = fuzzy_matches partial_ratio df q
        in if matches \<noteq> [] \<and> 80 < snd (hd matches) then
             (let idx = fst (hd matches) in
              case to_records df [idx] of
                Inl e \<Rightarrow> Inl e
              | Inr matched \<Rightarrow>
                 (let drama_title = title_str (hd matched);
                      sim_scores = py_slice 1 (num_recommendations + 1)
                                     (similar_sorted cosine_sim df idx);
                      recommended_indices = map fst sim_scores;
                      header = ''If you liked <b>'' @ drama_title @ ''</b>, you might also enjoy:''
                  in case to_records df recommended_indices of
                       Inl e \<Rightarrow> Inl e
                     | Inr recommendations \<Rightarrow> Inr (header, recommendations)))
           else
             (case str_contains q of
                None \<Rightarrow> Inl RegexError
              | Some test \<Rightarrow>
                 (let filtered = filtered_index test df in
                  if filtered = [] then
                    Inr (''No dramas found for your search. Try another keyword!'', [])
                  else
                    (let recommended_indices = py_slice 0 num_recommendations filtered;
                         header = ''Here are some dramas similar to what you searched for:''
                     in case to_records df recommended_indices of
                          Inl e \<Rightarrow> Inl e
                        | Inr recommendations \<Rightarrow> Inr (header, recommendations)))))"

section \<open>get_top_rated\<close>

text \<open>
  \<open>df.sort_values(col, ascending=False)\<close> runs with the library's default
  \<open>kind="quicksort"\<close>, whose order among equal keys the library leaves open. The sort is
  therefore a parameter \<open>sort_values\<close>, and what the library promises of it is
  \<open>sort_values_contract\<close>: a rearrangement of the rows in non-increasing rating order.
\<close>

definition descending_by_rating :: "drama list \<Rightarrow> bool" where
  "descending_by_rating xs =
     sorted_wrt (\<lambda>a b. pynum_le (Personal_rating_out_of_10 b) (Personal_rating_out_of_10 a)) xs"

definition sort_values_contract :: "(drama list \<Rightarrow> drama list) \<Rightarrow> drama list \<Rightarrow> bool" where
  "sort_values_contract sort_values df =
     (mset (sort_values df) = mset df \<and> descending_by_rating (sort_values df))"

definition get_top_rated :: "(drama list \<Rightarrow> drama list) \<Rightarrow> drama list \<Rightarrow> int \<Rightarrow> int \<Rightarrow> drama list" where
  "get_top_rated sort_values df page per_page =
     (let sorted_df = sort_values df;
          start = (page - 1) * per_page;
          end = page * per_page
      in py_slice start end sorted_df)"

section \<open>The similarity matrix\<close>

text \<open>
  Modelled from the spec: \<open>cosine_sim = cosine_similarity(tfidf_matrix, tfidf_matrix)\<close>
  is computed by scikit-learn, which is not part of this program. The spec calls the
  cosine similarity the normalised dot product of two term-weight vectors, with 1 on the
  diagonal of a vector that is not zero. \<open>X i k\<close> is the weight of term \<open>k\<close> in record
  \<open>i\<close>, \<open>d\<close> the number of terms, and the weights are reals: the rounding of floating
  point arithmetic is not modelled. A record with no term (a zero row) is left as it is
  by the normalisation, so its similarity to every record is 0.
\<close>

definition dot :: "nat \<Rightarrow> (nat \<Rightarrow> nat \<Rightarrow> real) \<Rightarrow> nat \<Rightarrow> nat \<Rightarrow> real" where
  "dot d X i j = (\<Sum>k<d. X i k * X j k)"

definition row_norm :: "nat \<Rightarrow> (nat \<Rightarrow> nat \<Rightarrow> real) \<Rightarrow> nat \<Rightarrow> real" where
  "row_norm d X i = sqrt (dot d X i i)"

definition cosine_similarity :: "nat \<Rightarrow> (nat \<Rightarrow> nat \<Rightarrow> real) \<Rightarrow> nat \<Rightarrow> nat \<Rightarrow> real" where
  "cosine_similarity d X i j =
     (if row_norm d X i = 0 \<or> row_norm d X j = 0 then 0
      else dot d X i j / (row_norm d X i * row_norm d X j))"

section \<open>Concrete inputs\<close>

text \<open>
  A catalog of three loaded records. \<open>drama_a\<close> and \<open>drama_b\<close> differ in title and year
  only, so their composite features (genres, mood tags, summary, leads) are the same text.
  The genre strings are what \<open>add_emojis\<close> leaves for a tag outside its table.
\<close>

definition drama_a :: drama where
  "drama_a = \<lparr>Title = Some ''Milk'', Genres = '' Indie'', Mood_Tags = ''calm'',
     Summary = ''Not specified'', Main_Leads = ''Not specified'', Year = ''2020'',
     Personal_rating_out_of_10 = Num 8\<rparr>"

definition drama_b :: drama where
  "drama_b = \<lparr>Title = Some ''SOTUS'', Genres = '' Indie'', Mood_Tags = ''calm'',
     Summary = ''Not specified'', Main_Leads = ''Not specified'', Year = ''2016'',
     Personal_rating_out_of_10 = Num 8\<rparr>"

definition drama_c :: drama where
  "drama_c = \<lparr>Title = Some ''Hana'', Genres = '' Indie'', Mood_Tags = ''hazy'',
     Summary = ''Not specified'', Main_Leads = ''Not specified'', Year = ''2021'',
     Personal_rating_out_of_10 = Num (- 1)\<rparr>"

definition catalog :: "drama list" where
  "catalog = [drama_a, drama_b, drama_c]"

text \<open>
  The library values at these inputs. \<open>partial_ratio_ex\<close> is 100 for a query that occurs
  in the text and 0 otherwise: the library scores a contained query 100 and a query that
  shares no character with the text 0, which covers every score the examples depend on
  (a score in between never moves a record in front of an earlier record that scores 100).
  \<open>cosine_sim_ex\<close> gives equal texts the similarity 1, as the cosine of equal vectors,
  and other pairs a smaller value. \<open>str_contains_ex\<close> follows Python's \<open>re\<close> on the
  patterns used: a pattern without special characters is searched literally, \<open>.\<close>
  matches any character but a newline, and \<open>(\<close> does not compile; it stands for no
  other pattern with a special character.
\<close>

definition partial_ratio_ex :: "string \<Rightarrow> string \<Rightarrow> nat" where
  "partial_ratio_ex q text = (if py_in q text then 100 else 0)"

definition cosine_sim_ex :: "nat \<Rightarrow> nat \<Rightarrow> rat" where
  "cosine_sim_ex i j = (if i = j \<or> (i < 2 \<and> j < 2) then 1 else 1 / 2)"

definition str_contains_ex :: "string \<Rightarrow> (string \<Rightarrow> bool) option" where
  "str_contains_ex pat =
     (if pat = ''.'' then Some (\<lambda>text. list_ex (\<lambda>c. c \<noteq> CHR 0x0A) text)
      else if list_ex (\<lambda>c. c \<in> set ''.^$*+?{}[]|()'' \<or> c = CHR 0x5C) pat then None
      else Some (\<lambda>text. py_in pat text))"

text \<open>
  A sort that meets \<open>sort_values_contract\<close> on a catalog without NaN and keeps records
  of equal rating in their catalog order: each record is inserted behind the last record
  rated no lower. On \<open>catalog\<close> it gives Milk, SOTUS, Hana.
\<close>

fun insert_rating :: "drama \<Rightarrow> drama list \<Rightarrow> drama list" where
  "insert_rating x [] = [x]"
| "insert_rating x (y # ys) =
     (if pynum_le (Personal_rating_out_of_10 x) (Personal_rating_out_of_10 y)
      then y # insert_rating x ys
      else x # y # ys)"

definition tie_keeping_sort :: "drama list \<Rightarrow> drama list" where
  "tie_keeping_sort df = foldl (\<lambda>acc x. insert_rating x acc) [] df"

text \<open>
  A term-weight matrix over two terms: record 0 has the first term only, record 1 both
  terms with equal weight, and every other record no term.
\<close>

definition tfidf_ex :: "nat \<Rightarrow> nat \<Rightarrow> real" where
  "tfidf_ex i k = (if i = 0 then (if k = 0 then 1 else 0) else if i = 1 then 1 else 0)"

section \<open>Basic facts\<close>

lemma py_strip_blank: "list_all py_isspace s \<Longrightarrow> py_strip s = []"
proof -
  assume "list_all py_isspace s"
  then have h: "dropWhile py_isspace s = []"
    by (simp add: list_all_iff)
  show ?thesis unfolding py_strip_def h by simp
qed



lemma length_py_slice_le: "length (py_slice start stop xs) \<le> length xs"
proof -
  have "length (take k (drop j xs)) \<le> length xs" for k j by simp
  then show ?thesis unfolding py_slice_def Let_def by blast
qed

lemma py_slice_beyond: "int (length xs) \<le> start \<Longrightarrow> py_slice start stop xs = []"
  by (auto simp: py_slice_def Let_def)

lemma py_slice_nonneg:
  "0 \<le> start \<Longrightarrow> 0 \<le> stop \<Longrightarrow>
   py_slice start stop xs = take (nat stop - nat start) (drop (nat start) xs)"
proof -
  assume a: "0 \<le> start" "0 \<le> stop"
  show ?thesis
  proof (cases "start \<le> int (length xs)")
    case True
    then show ?thesis using a
      by (auto simp: py_slice_def Let_def min_def nat_diff_distrib')
  next
    case False
    then show ?thesis using a
      by (auto simp: py_slice_def Let_def min_def)
  qed
qed

lemma to_records_length: "to_records df idxs = Inr rs \<Longrightarrow> length rs = length idxs"
  by (auto simp: to_records_def split: if_splits)



lemma descending_py_slice:
  "descending_by_rating xs \<Longrightarrow> descending_by_rating (py_slice start stop xs)"
  unfolding descending_by_rating_def py_slice_def Let_def
  by (intro sorted_wrt_take sorted_wrt_drop)

lemma mset_py_slice: "mset (py_slice start stop xs) \<subseteq># mset xs"
proof -
  have "mset (take k (drop j xs)) \<subseteq># mset xs" for k j
  proof -
    have "mset (take k (drop j xs)) \<subseteq># mset (drop j xs)"
      by (metis append_take_drop_id mset_append mset_subset_eq_add_left)
    also have "\<dots> \<subseteq># mset xs"
      by (metis append_take_drop_id mset_append mset_subset_eq_add_right)
    finally show ?thesis .
  qed
  then show ?thesis unfolding py_slice_def Let_def by blast
qed

lemma page_slice:
  assumes "1 \<le> page" "0 \<le> per_page"
  shows "py_slice ((page - 1) * per_page) (page * per_page) xs =
         take (nat per_page) (drop (nat ((page - 1) * per_page)) xs)"
proof -
  have s: "0 \<le> (page - 1) * per_page" using assms by simp
  have e: "0 \<le> page * per_page" using assms by simp
  have "page * per_page = (page - 1) * per_page + per_page" by (simp add: algebra_simps)
  then have "nat (page * per_page) - nat ((page - 1) * per_page) = nat per_page"
    using s assms(2) by (simp add: nat_add_distrib)
  then show ?thesis using py_slice_nonneg [OF s e, of xs] by simp
qed

lemma load_rating_not_NaN: "load_rating parse c \<noteq> NaN"
  by (simp add: load_rating_def fillna_def)

lemma load_ratings_not_NaN: "list_all (\<lambda>v. v \<noteq> NaN) (load_ratings parse col)"
  by (induction col) (simp_all add: load_ratings_def load_rating_not_NaN)

section \<open>Sorting, slicing and the two searches\<close>

lemma sorted_reverse_set [simp]: "set (sorted_reverse key xs) = set xs"
  by (simp add: sorted_reverse_def)

lemma sorted_reverse_length [simp]: "length (sorted_reverse key xs) = length xs"
  by (simp add: sorted_reverse_def)

lemma sorted_reverse_Nil_iff [simp]: "sorted_reverse key xs = [] \<longleftrightarrow> xs = []"
  by (metis length_0_conv sorted_reverse_length)

lemma sorted_reverse_descending:
  "sorted_wrt (\<lambda>a b. key b \<le> key a) (sorted_reverse key xs)"
proof -
  have "sorted (map (\<lambda>x. - key x) (sort_key (\<lambda>x. - key x) xs))"
    by (rule sorted_sort_key)
  then show ?thesis
    by (simp add: sorted_reverse_def sorted_wrt_map)
qed

lemma sorted_reverse_hd_max:
  assumes "xs \<noteq> []" "x \<in> set xs"
  shows "key x \<le> key (hd (sorted_reverse key xs))"
proof -
  obtain y ys where ys: "sorted_reverse key xs = y # ys"
    using assms(1) by (cases "sorted_reverse key xs") simp_all
  have "x \<in> set (y # ys)" using assms(2) ys by (metis sorted_reverse_set)
  moreover have "sorted_wrt (\<lambda>a b. key b \<le> key a) (y # ys)"
    using sorted_reverse_descending [of key xs] ys by simp
  ultimately show ?thesis using ys by auto
qed

lemma sorted_reverse_hd_in:
  "xs \<noteq> [] \<Longrightarrow> hd (sorted_reverse key xs) \<in> set xs"
  by (metis hd_in_set sorted_reverse_Nil_iff sorted_reverse_set)

text \<open>Stability: the head is the first element of the input with the best key.\<close>

lemma sorted_reverse_hd_first:
  assumes "xs \<noteq> []"
  shows "hd (sorted_reverse key xs) =
         hd (filter (\<lambda>y. key y = key (hd (sorted_reverse key xs))) xs)"
proof -
  let ?f = "\<lambda>x. - key x"
  obtain y ys where ys: "sort_key ?f xs = y # ys"
    using assms by (cases "sort_key ?f xs") (auto dest: arg_cong [where f = length])
  have "filter (\<lambda>z. ?f z = ?f y) (sort_key ?f xs) = filter (\<lambda>z. ?f z = ?f y) xs"
    by (rule sort_key_stable)
  then have "y # filter (\<lambda>z. ?f z = ?f y) ys = filter (\<lambda>z. ?f z = ?f y) xs"
    using ys by simp
  then have "hd (filter (\<lambda>z. ?f z = ?f y) xs) = y"
    by (metis list.sel(1))
  then show ?thesis using ys by (simp add: sorted_reverse_def)
qed

lemma hd_filter_enumerate_least:
  assumes "filter P (enumerate n xs) \<noteq> []" "n \<le> j" "j < fst (hd (filter P (enumerate n xs)))"
  shows "\<not> P (j, xs ! (j - n))"
  using assms
proof (induction xs arbitrary: n)
  case Nil
  then show ?case by simp
next
  case (Cons x xs)
  show ?case
  proof (cases "P (n, x)")
    case True
    then show ?thesis using Cons.prems by simp
  next
    case False
    show ?thesis
    proof (cases "j = n")
      case True
      then show ?thesis using False by simp
    next
      case jn: False
      then have le: "Suc n \<le> j" using Cons.prems(2) by simp
      have ne: "filter P (enumerate (Suc n) xs) \<noteq> []" using Cons.prems(1) False by simp
      have lt: "j < fst (hd (filter P (enumerate (Suc n) xs)))"
        using Cons.prems(3) False by simp
      have "\<not> P (j, xs ! (j - Suc n))" by (rule Cons.IH [OF ne le lt])
      moreover have "(x # xs) ! (j - n) = xs ! (j - Suc n)"
        using le by (simp add: Suc_diff_le)
      ultimately show ?thesis by simp
    qed
  qed
qed

lemma hd_sorted_reverse_enumerate:
  assumes ne: "xs \<noteq> []" and key: "\<And>p. key p = g (snd p)"
  shows "fst (hd (sorted_reverse key (enumerate 0 xs))) < length xs"
    and "snd (hd (sorted_reverse key (enumerate 0 xs))) =
           xs ! fst (hd (sorted_reverse key (enumerate 0 xs)))"
    and "j < length xs \<Longrightarrow> g (xs ! j) \<le> g (xs ! fst (hd (sorted_reverse key (enumerate 0 xs))))"
    and "j < fst (hd (sorted_reverse key (enumerate 0 xs))) \<Longrightarrow>
           g (xs ! j) < g (xs ! fst (hd (sorted_reverse key (enumerate 0 xs))))"
proof -
  let ?es = "enumerate 0 xs"
  let ?h = "hd (sorted_reverse key ?es)"
  have es: "?es \<noteq> []" using ne by (metis length_0_conv length_enumerate)
  have hin: "?h \<in> set ?es" using es by (rule sorted_reverse_hd_in)
  then show lt: "fst ?h < length xs" and sn: "snd ?h = xs ! fst ?h"
    by (simp_all add: in_set_enumerate_eq)
  have mx: "g (xs ! j) \<le> g (xs ! fst ?h)" if "j < length xs" for j
  proof -
    have "(j, xs ! j) \<in> set ?es" using that by (simp add: in_set_enumerate_eq)
    then have "key (j, xs ! j) \<le> key ?h" using es by (intro sorted_reverse_hd_max)
    then show ?thesis using sn by (simp add: key)
  qed
  then show "j < length xs \<Longrightarrow> g (xs ! j) \<le> g (xs ! fst ?h)" .
  show "g (xs ! j) < g (xs ! fst ?h)" if j: "j < fst ?h"
  proof -
    let ?P = "\<lambda>y. key y = key ?h"
    have first: "?h = hd (filter ?P ?es)" using es by (rule sorted_reverse_hd_first)
    have "?h \<in> set (filter ?P ?es)" using hin by simp
    then have fne: "filter ?P ?es \<noteq> []" by (metis empty_iff list.set(1))
    have "j < fst (hd (filter ?P ?es))" using j first by simp
    then have "\<not> ?P (j, xs ! (j - 0))"
      using hd_filter_enumerate_least [OF fne, of j] by simp
    then have "g (xs ! j) \<noteq> g (xs ! fst ?h)" using sn by (simp add: key)
    moreover have "g (xs ! j) \<le> g (xs ! fst ?h)" using j lt by (intro mx) simp
    ultimately show ?thesis by simp
  qed
qed

lemma fuzzy_matches_Nil_iff: "fuzzy_matches pr df q = [] \<longleftrightarrow> df = []"
  by (simp add: fuzzy_matches_def) (metis length_0_conv length_enumerate length_map)

lemma fuzzy_matches_best:
  fixes pr :: "string \<Rightarrow> string \<Rightarrow> nat" and q :: string and df :: "drama list"
  assumes "df \<noteq> []"
  defines "idx \<equiv> fst (hd (fuzzy_matches pr df q))"
  shows "idx < length df"
    and "snd (hd (fuzzy_matches pr df q)) = pr q (search_blob (df ! idx))"
    and "j < length df \<Longrightarrow> pr q (search_blob (df ! j)) \<le> pr q (search_blob (df ! idx))"
    and "j < idx \<Longrightarrow> pr q (search_blob (df ! j)) < pr q (search_blob (df ! idx))"
proof -
  let ?xs = "map (pr q) (map search_blob df)"
  have ne: "?xs \<noteq> []" using assms(1) by simp
  note h = hd_sorted_reverse_enumerate
    [where key = "\<lambda>x. int (snd x)" and g = int and xs = ?xs, OF ne refl]
  show lt: "idx < length df" using h(1) by (simp add: idx_def fuzzy_matches_def)
  show "snd (hd (fuzzy_matches pr df q)) = pr q (search_blob (df ! idx))"
    using h(2) lt by (simp add: idx_def fuzzy_matches_def)
  show "pr q (search_blob (df ! j)) \<le> pr q (search_blob (df ! idx))" if "j < length df"
    using h(3) [of j] that lt by (simp add: idx_def fuzzy_matches_def)
  show "pr q (search_blob (df ! j)) < pr q (search_blob (df ! idx))" if "j < idx"
    using h(4) [of j] that lt by (simp add: idx_def fuzzy_matches_def)
qed

lemma strong_match_iff:
  "(fuzzy_matches pr df q \<noteq> [] \<and> 80 < snd (hd (fuzzy_matches pr df q))) \<longleftrightarrow>
   list_ex (\<lambda>r. 80 < pr q (search_blob r)) df"
proof (cases "df = []")
  case True
  then show ?thesis by (simp add: fuzzy_matches_Nil_iff)
next
  case False
  note b = fuzzy_matches_best [where pr = pr and q = q, OF False]
  show ?thesis
  proof
    assume "fuzzy_matches pr df q \<noteq> [] \<and> 80 < snd (hd (fuzzy_matches pr df q))"
    then have "80 < pr q (search_blob (df ! fst (hd (fuzzy_matches pr df q))))"
      using b(2) by simp
    then show "list_ex (\<lambda>r. 80 < pr q (search_blob r)) df"
      using b(1) by (auto simp: list_ex_iff)
  next
    assume "list_ex (\<lambda>r. 80 < pr q (search_blob r)) df"
    then obtain j where "j < length df" "80 < pr q (search_blob (df ! j))"
      by (auto simp: list_ex_iff in_set_conv_nth)
    then have "80 < snd (hd (fuzzy_matches pr df q))"
      using b(2) b(3) [of j] by simp
    then show "fuzzy_matches pr df q \<noteq> [] \<and> 80 < snd (hd (fuzzy_matches pr df q))"
      using False by (simp add: fuzzy_matches_Nil_iff)
  qed
qed

lemma py_slice_map: "map f (py_slice start stop xs) = py_slice start stop (map f xs)"
  by (simp add: py_slice_def Let_def take_map drop_map)

lemma set_py_slice: "set (py_slice start stop xs) \<subseteq> set xs"
proof -
  have "set (take k (drop j xs)) \<subseteq> set xs" for k j
    by (meson order_trans set_drop_subset set_take_subset)
  then show ?thesis unfolding py_slice_def Let_def by blast
qed

lemma set_py_slice_1: "set (py_slice 1 stop xs) \<subseteq> set (tl xs)"
proof (cases xs)
  case Nil
  then show ?thesis by (simp add: py_slice_def)
next
  case (Cons x ys)
  have "set (take k (drop 1 xs)) \<subseteq> set (tl xs)" for k
    using Cons by (simp add: set_take_subset)
  moreover have "nat (min 1 (int (length xs))) = 1" using Cons by simp
  ultimately show ?thesis unfolding py_slice_def Let_def by simp
qed

lemma sorted_wrt_py_slice: "sorted_wrt R xs \<Longrightarrow> sorted_wrt R (py_slice start stop xs)"
  unfolding py_slice_def Let_def by (intro sorted_wrt_take sorted_wrt_drop)

lemma to_records_map:
  "list_all (\<lambda>i. i < length df) idxs \<Longrightarrow> to_records df idxs = Inr (map (\<lambda>i. df ! i) idxs)"
  by (simp add: to_records_def)

subsection \<open>The similarity row\<close>

lemma set_similar_sorted:
  "set (similar_sorted sim df idx) = (\<lambda>j. (j, sim idx j)) ` {..<length df}"
  by (auto simp: similar_sorted_def enumerate_map_upt)

lemma similar_sorted_entries:
  "list_all (\<lambda>x. fst x < length df \<and> snd x = sim idx (fst x)) (similar_sorted sim df idx)"
  by (auto simp: list_all_iff set_similar_sorted)

lemma similar_sorted_descending:
  "sorted_wrt (\<lambda>a b. snd b \<le> snd a) (similar_sorted sim df idx)"
  unfolding similar_sorted_def by (rule sorted_reverse_descending)

lemma distinct_fst_similar_sorted: "distinct (map fst (similar_sorted sim df idx))"
proof -
  have "mset (map fst (similar_sorted sim df idx)) =
        mset (map fst (enumerate 0 (map (sim idx) [0..<length df])))"
    by (simp only: similar_sorted_def sorted_reverse_def mset_map mset_sort)
  moreover have "distinct (map fst (enumerate 0 (map (sim idx) [0..<length df])))"
    by simp
  ultimately show ?thesis by (metis mset_eq_imp_distinct_iff)
qed

lemma similar_sorted_hd:
  assumes idx: "idx < length df"
    and mx: "\<And>j. j < length df \<Longrightarrow> sim idx j \<le> sim idx idx"
    and first: "\<And>j. j < idx \<Longrightarrow> sim idx j < sim idx idx"
  shows "hd (similar_sorted sim df idx) = (idx, sim idx idx)"
proof -
  let ?xs = "map (sim idx) [0..<length df]"
  let ?h = "hd (sorted_reverse snd (enumerate 0 ?xs))"
  have ne: "?xs \<noteq> []" using idx by auto
  note h = hd_sorted_reverse_enumerate [where key = snd and g = "\<lambda>x. x" and xs = ?xs, OF ne refl]
  have lt: "fst ?h < length df" using h(1) by simp
  have sn: "snd ?h = sim idx (fst ?h)" using h(2) lt by simp
  have a: "sim idx idx \<le> sim idx (fst ?h)" using h(3) [of idx] idx lt by simp
  have b: "sim idx (fst ?h) \<le> sim idx idx" using mx lt by simp
  have "fst ?h = idx"
  proof (rule ccontr)
    assume "fst ?h \<noteq> idx"
    then consider "fst ?h < idx" | "idx < fst ?h" by linarith
    then show False
    proof cases
      case 1
      then show False using first [of "fst ?h"] a by simp
    next
      case 2
      then have "sim idx idx < sim idx (fst ?h)" using h(4) [of idx] idx lt by simp
      then show False using b by simp
    qed
  qed
  then show ?thesis using sn by (simp add: similar_sorted_def prod_eq_iff)
qed

lemma similar_sorted_slice_excludes:
  assumes "idx < length df" "hd (similar_sorted sim df idx) = (idx, sim idx idx)"
  shows "idx \<notin> fst ` set (py_slice 1 stop (similar_sorted sim df idx))"
proof -
  let ?ys = "similar_sorted sim df idx"
  have "length ?ys = length df" by (simp add: similar_sorted_def)
  then have "?ys \<noteq> []" using assms(1) by auto
  then have ys: "?ys = (idx, sim idx idx) # tl ?ys" using assms(2) by (metis list.collapse)
  have "distinct (map fst ((idx, sim idx idx) # tl ?ys))"
    using distinct_fst_similar_sorted [of sim df idx] ys by simp
  then have "idx \<notin> fst ` set (tl ?ys)" by simp
  then show ?thesis using set_py_slice_1 [of stop ?ys] by blast
qed

subsection \<open>The keyword filter\<close>

lemma filtered_index_enumerate:
  "list_all (\<lambda>i. i < length (pre @ xs))
     (map fst (filter (\<lambda>x. test (snd x)) (enumerate (length pre) (map search_blob xs)))) \<and>
   map (\<lambda>i. (pre @ xs) ! i)
     (map fst (filter (\<lambda>x. test (snd x)) (enumerate (length pre) (map search_blob xs)))) =
   filter (\<lambda>r. test (search_blob r)) xs"
proof (induction xs arbitrary: pre)
  case Nil
  then show ?case by simp
next
  case (Cons x xs)
  have "pre @ x # xs = (pre @ [x]) @ xs" by simp
  moreover have "Suc (length pre) = length (pre @ [x])" by simp
  ultimately show ?case using Cons.IH [of "pre @ [x]"]
    by (simp only: list.map enumerate_simps filter.simps) (simp add: nth_append)
qed

lemma filtered_index_records:
  "list_all (\<lambda>i. i < length df) (filtered_index test df)"
  "map (\<lambda>i. df ! i) (filtered_index test df) = filter (\<lambda>r. test (search_blob r)) df"
  using filtered_index_enumerate [of "[]" df test] by (simp_all add: filtered_index_def)

lemma filtered_index_Nil_iff:
  "filtered_index test df = [] \<longleftrightarrow> filter (\<lambda>r. test (search_blob r)) df = []"
  by (metis filtered_index_records(2) map_is_Nil_conv)

lemma to_records_filtered:
  "to_records df (py_slice start stop (filtered_index test df)) =
   Inr (py_slice start stop (filter (\<lambda>r. test (search_blob r)) df))"
proof -
  have "list_all (\<lambda>i. i < length df) (py_slice start stop (filtered_index test df))"
    using filtered_index_records(1) [of df test] set_py_slice [of start stop "filtered_index test df"]
    by (auto simp: list_all_iff)
  then show ?thesis
    by (simp add: to_records_map py_slice_map filtered_index_records(2))
qed

lemma to_records_similar:
  "to_records df (map fst (py_slice start stop (similar_sorted sim df idx))) =
   Inr (map (\<lambda>x. df ! fst x) (py_slice start stop (similar_sorted sim df idx)))"
proof -
  have "list_all (\<lambda>i. i < length df) (map fst (py_slice start stop (similar_sorted sim df idx)))"
    using similar_sorted_entries [of df sim idx] set_py_slice [of start stop "similar_sorted sim df idx"]
    by (auto simp: list_all_iff)
  then show ?thesis by (simp add: to_records_map comp_def)
qed

lemma recommend_keyword_eq:
  assumes q: "normalize_query query \<noteq> []"
    and weak: "list_all (\<lambda>r. pr (normalize_query query) (search_blob r) \<le> 80) df"
  shows "recommend pr sc df sim query n =
     (case sc (normalize_query query) of
        None \<Rightarrow> Inl RegexError
      | Some test \<Rightarrow>
          if filter (\<lambda>r. test (search_blob r)) df = []
          then Inr (''No dramas found for your search. Try another keyword!'', [])
          else Inr (''Here are some dramas similar to what you searched for:'',
                    py_slice 0 n (filter (\<lambda>r. test (search_blob r)) df)))"
proof -
  let ?q = "normalize_query query"
  have "\<not> list_ex (\<lambda>r. 80 < pr ?q (search_blob r)) df"
    using weak by (auto simp: list_all_iff list_ex_iff)
  then have no: "(fuzzy_matches pr df ?q \<noteq> [] \<and> 80 < snd (hd (fuzzy_matches pr df ?q))) = False"
    by (simp only: strong_match_iff)
  show ?thesis
  proof (cases "sc ?q")
    case None
    then show ?thesis using q by (simp add: recommend_def Let_def no)
  next
    case (Some test)
    then show ?thesis using q
      by (simp add: recommend_def Let_def no to_records_filtered filtered_index_Nil_iff)
  qed
qed

lemma recommend_title_eq:
  assumes q: "normalize_query query \<noteq> []"
    and strong: "list_ex (\<lambda>r. 80 < pr (normalize_query query) (search_blob r)) df"
    and idx: "idx = fst (hd (fuzzy_matches pr df (normalize_query query)))"
  shows "idx < length df"
    and "recommend pr sc df sim query n =
      Inr (''If you liked <b>'' @ title_str (df ! idx) @ ''</b>, you might also enjoy:'',
           map (\<lambda>x. df ! fst x) (py_slice 1 (n + 1) (similar_sorted sim df idx)))"
proof -
  let ?q = "normalize_query query"
  have yes: "(fuzzy_matches pr df ?q \<noteq> [] \<and> 80 < snd (hd (fuzzy_matches pr df ?q))) = True"
    using strong by (simp only: strong_match_iff)
  then have ne: "df \<noteq> []" by (simp add: fuzzy_matches_Nil_iff)
  show lt: "idx < length df"
    using fuzzy_matches_best(1) [where pr = pr and q = ?q, OF ne] idx by simp
  then have m: "to_records df [idx] = Inr [df ! idx]" by (simp add: to_records_def)
  show "recommend pr sc df sim query n =
      Inr (''If you liked <b>'' @ title_str (df ! idx) @ ''</b>, you might also enjoy:'',
           map (\<lambda>x. df ! fst x) (py_slice 1 (n + 1) (similar_sorted sim df idx)))"
    using q m by (simp add: recommend_def Let_def yes idx [symmetric] to_records_similar)
qed

lemma py_slice_1_take_tl: "0 \<le> n \<Longrightarrow> py_slice 1 (n + 1) xs = take (nat n) (tl xs)"
proof -
  assume n: "0 \<le> n"
  have "nat (n + 1) - nat 1 = nat n" using n by simp
  then show ?thesis using py_slice_nonneg [of 1 "n + 1" xs] n by (simp add: drop_Suc)
qed

lemma py_slice_0_take: "0 \<le> n \<Longrightarrow> py_slice 0 n xs = take (nat n) xs"
  using py_slice_nonneg [of 0 n xs] by simp

lemma distinct_py_slice: "distinct xs \<Longrightarrow> distinct (py_slice start stop xs)"
  unfolding py_slice_def Let_def by (intro distinct_take distinct_drop)

section \<open>Empty input\<close>

text \<open>
  C3. For every count \<open>n\<close>, a query that is empty or made of whitespace only (every
  character is one that \<open>str.strip\<close> removes, the no-break space and the next-line
  control among them) gives the header "Please enter a drama name or keyword." and no
  records; the call returns (\<open>Inr\<close>), it does not raise.
\<close>

theorem recommend_blank_query:
  "list_all py_isspace q \<Longrightarrow>
   recommend pr sc df sim (Some q) n = Inr (''Please enter a drama name or keyword.'', [])"
  by (simp add: recommend_def normalize_query_def py_str_def py_strip_blank py_lower_def)

theorem recommend_blank_query_witness:
  "list_all py_isspace [CHR '' '', CHR 0x09, CHR 0xA0, CHR 0x85] \<and>
   recommend (\<lambda>q t. 0) (\<lambda>p. None) [] (\<lambda>i j. 0) (Some [CHR '' '', CHR 0x09, CHR 0xA0, CHR 0x85]) (- 3) =
     Inr (''Please enter a drama name or keyword.'', [])"
  using recommend_blank_query
    [of "[CHR '' '', CHR 0x09, CHR 0xA0, CHR 0x85]" "\<lambda>q t. 0" "\<lambda>p. None" "[]" "\<lambda>i j. 0" "- 3"]
  by (simp add: py_isspace_def)


section \<open>The number of records returned\<close>

text \<open>
  C6, as stated: for every query and every requested count, the returned list is no
  longer than the count. It fails for a negative count: \<open>[1:n+1]\<close> and \<open>[:n]\<close> then
  count from the end of the list. With the count \<open>-2\<close> the query "Milk" is answered
  with one record.
\<close>

theorem recommend_length_negative_counterexample:
  "recommend partial_ratio_ex str_contains_ex catalog cosine_sim_ex (Some ''Milk'') (- 2) =
     Inr (''If you liked <b>Milk</b>, you might also enjoy:'', [drama_b]) \<and>
   \<not> int (length [drama_b]) \<le> - 2"
  by code_simp

text \<open>
  C6, amended: for every query and every requested count that is not negative, a call
  that returns gives a list no longer than the count.
\<close>

theorem recommend_length_le:
  "0 \<le> n \<Longrightarrow> recommend pr sc df sim query n = Inr (h, rs) \<Longrightarrow> int (length rs) \<le> n"
proof -
  assume n: "0 \<le> n" and r: "recommend pr sc df sim query n = Inr (h, rs)"
  have a: "length (py_slice 1 (n + 1) xs) \<le> nat n" for xs :: "(nat \<times> rat) list"
    using n by (simp add: py_slice_nonneg)
  have b: "length (py_slice 0 n xs) \<le> nat n" for xs :: "nat list"
    using n by (simp add: py_slice_nonneg)
  from r have "length rs \<le> nat n"
    unfolding recommend_def Let_def
    by (auto split: if_splits sum.splits option.splits dest!: to_records_length
        intro: a b order_trans)
  with n show ?thesis by simp
qed

theorem recommend_length_le_witness:
  "(0::int) \<le> 1 \<and>
   recommend partial_ratio_ex str_contains_ex catalog cosine_sim_ex (Some ''Milk'') 1 =
     Inr (''If you liked <b>Milk</b>, you might also enjoy:'', [drama_b]) \<and>
   int (length [drama_b]) \<le> 1"
proof -
  have r: "recommend partial_ratio_ex str_contains_ex catalog cosine_sim_ex (Some ''Milk'') 1 =
     Inr (''If you liked <b>Milk</b>, you might also enjoy:'', [drama_b])"
    by code_simp
  have n: "(0::int) \<le> 1" by simp
  from recommend_length_le [OF n r] n r show ?thesis by blast
qed

section \<open>Top rated\<close>

text \<open>
  What \<open>get_top_rated\<close> returns, whatever the library does with equal ratings: it
  sorts the full catalog by rating, highest first, and returns the slice of that order
  from \<open>(page - 1) * per_page\<close> to \<open>page * per_page\<close>. Every page is in
  non-increasing rating order and made of catalog records, page \<open>page \<ge> 1\<close> of size
  \<open>per_page \<ge> 0\<close> is the \<open>per_page\<close> records after the first
  \<open>(page - 1) * per_page\<close>, and \<open>get_top_rated(1, 5)\<close> has exactly 5 records, or all
  of them when the catalog has fewer. The order of records of equal rating is decided
  inside the library sort and is not fixed by this program.
\<close>

theorem get_top_rated_page:
  assumes "sort_values_contract sort_values df"
  shows "descending_by_rating (get_top_rated sort_values df page per_page) \<and>
         mset (get_top_rated sort_values df page per_page) \<subseteq># mset df \<and>
         (1 \<le> page \<and> 0 \<le> per_page \<longrightarrow>
            get_top_rated sort_values df page per_page =
              take (nat per_page) (drop (nat ((page - 1) * per_page)) (sort_values df))) \<and>
         length (get_top_rated sort_values df 1 5) = min 5 (length df)"
proof -
  from assms have m: "mset (sort_values df) = mset df"
    and d: "descending_by_rating (sort_values df)"
    by (simp_all add: sort_values_contract_def)
  have len: "length (sort_values df) = length df"
    using m by (rule mset_eq_length)
  have 1: "descending_by_rating (get_top_rated sort_values df page per_page)"
    using d by (simp add: get_top_rated_def Let_def descending_py_slice)
  have 2: "mset (get_top_rated sort_values df page per_page) \<subseteq># mset df"
    using mset_py_slice [of "(page - 1) * per_page" "page * per_page" "sort_values df"] m
    by (simp add: get_top_rated_def Let_def)
  have 3: "1 \<le> page \<and> 0 \<le> per_page \<longrightarrow>
            get_top_rated sort_values df page per_page =
              take (nat per_page) (drop (nat ((page - 1) * per_page)) (sort_values df))"
    by (simp add: get_top_rated_def Let_def page_slice)
  have "get_top_rated sort_values df 1 5 = take 5 (sort_values df)"
    using page_slice [of 1 5 "sort_values df"] by (simp add: get_top_rated_def Let_def)
  then have 4: "length (get_top_rated sort_values df 1 5) = min 5 (length df)"
    using len by simp
  from 1 2 3 4 show ?thesis by blast
qed

theorem get_top_rated_page_witness:
  "sort_values_contract tie_keeping_sort catalog \<and>
   descending_by_rating (get_top_rated tie_keeping_sort catalog 1 2) \<and>
   mset (get_top_rated tie_keeping_sort catalog 1 2) \<subseteq># mset catalog \<and>
   ((1::int) \<le> 1 \<and> (0::int) \<le> 2) \<and>
   get_top_rated tie_keeping_sort catalog 1 2 =
     take (nat 2) (drop (nat ((1 - 1) * 2)) (tie_keeping_sort catalog)) \<and>
   length (get_top_rated tie_keeping_sort catalog 1 5) = min 5 (length catalog)"
proof -
  have c: "sort_values_contract tie_keeping_sort catalog" by code_simp
  have a: "(1::int) \<le> 1 \<and> (0::int) \<le> 2" by simp
  from get_top_rated_page [OF c, of 1 2] c a show ?thesis by blast
qed

text \<open>
  C7. A page whose slice start \<open>(page - 1) * per_page\<close> is at or past the end of the
  catalog is empty. \<open>get_top_rated\<close> has no failing path: the slice of a frame never
  raises. Of the sort only that it keeps the number of rows is used.
\<close>

theorem get_top_rated_beyond:
  "length (sort_values df) = length df \<Longrightarrow> int (length df) \<le> (page - 1) * per_page \<Longrightarrow>
   get_top_rated sort_values df page per_page = []"
  by (simp add: get_top_rated_def Let_def py_slice_beyond)

theorem get_top_rated_beyond_witness:
  "length (tie_keeping_sort catalog) = length catalog \<and>
   int (length catalog) \<le> (2 - 1) * 5 \<and>
   get_top_rated tie_keeping_sort catalog 2 5 = []"
proof -
  have a: "length (tie_keeping_sort catalog) = length catalog" by code_simp
  have b: "int (length catalog) \<le> (2 - 1) * 5" by code_simp
  from a b get_top_rated_beyond [of tie_keeping_sort catalog 2 5] show ?thesis by blast
qed

section \<open>Ratings after loading\<close>

text \<open>
  C8, as stated: every loaded rating is at least 0. A cell that holds \<open>-1\<close> parses, so
  it is kept as it is.
\<close>

theorem load_rating_negative_counterexample:
  "load_ratings (\<lambda>s. None) [CNum (Num (- 1))] = [Num (- 1)] \<and>
   \<not> pynum_le (Num 0) (Num (- 1))"
  by (simp add: load_ratings_def load_rating_def to_numeric_def fillna_def)

text \<open>
  C8, amended: after loading, every rating is a number, never NaN; a cell that is empty
  or does not parse becomes 0, and a cell that parses keeps its value, whatever its sign
  or size.
\<close>

theorem load_rating_number:
  "load_rating parse c \<noteq> NaN \<and>
   (to_numeric parse c = NaN \<longrightarrow> load_rating parse c = Num 0) \<and>
   (to_numeric parse c \<noteq> NaN \<longrightarrow> load_rating parse c = to_numeric parse c) \<and>
   (parse s = None \<longrightarrow> load_rating parse (CStr s) = Num 0) \<and>
   list_all (\<lambda>v. v \<noteq> NaN) (load_ratings parse col)"
  using load_rating_not_NaN [of parse c] load_ratings_not_NaN [of parse col]
  by (simp add: load_rating_def fillna_def to_numeric_def)

theorem load_rating_number_witness:
  "to_numeric (\<lambda>s. None) (CStr ''n/a'') = NaN \<and>
   load_rating (\<lambda>s. None) (CStr ''n/a'') = Num 0 \<and>
   to_numeric (\<lambda>s. None) (CNum (Num 7)) \<noteq> NaN \<and>
   load_rating (\<lambda>s. None) (CNum (Num 7)) = Num 7 \<and>
   load_ratings (\<lambda>s. None) [CNum (Num 7), CStr ''n/a'', CNum NaN] = [Num 7, Num 0, Num 0]"
  using load_rating_number [of "\<lambda>s. None" "CStr ''n/a''" "''n/a''" "[]"]
    load_rating_number [of "\<lambda>s. None" "CNum (Num 7)" "''n/a''" "[]"]
  by (simp add: load_ratings_def load_rating_def to_numeric_def fillna_def)

section \<open>The similarity matrix is symmetric with a maximal diagonal\<close>

lemma dot_commute: "dot d X i j = dot d X j i"
  by (simp add: dot_def mult.commute)

lemma dot_self_nonneg: "0 \<le> dot d X i i"
  by (simp add: dot_def sum_nonneg)

lemma row_norm_nonneg: "0 \<le> row_norm d X i"
  by (simp add: row_norm_def dot_self_nonneg)

lemma row_norm_square: "row_norm d X i * row_norm d X i = dot d X i i"
  by (simp add: row_norm_def dot_self_nonneg)

lemma cosine_similarity_commute: "cosine_similarity d X i j = cosine_similarity d X j i"
  by (simp add: cosine_similarity_def dot_commute mult.commute disj_commute)

text \<open>The diagonal entry is 1, and 0 for a record with no term.\<close>

lemma cosine_similarity_diag:
  "cosine_similarity d X i i = (if row_norm d X i = 0 then 0 else 1)"
  by (simp add: cosine_similarity_def row_norm_square [symmetric])

text \<open>
  No entry is above 1 (the Cauchy-Schwarz inequality): for the two rows scaled to length
  1, each product of weights is at most half the sum of their squares, and the squares of
  a scaled row add up to 1.
\<close>

lemma cosine_similarity_le_1: "cosine_similarity d X i j \<le> 1"
proof (cases "row_norm d X i = 0 \<or> row_norm d X j = 0")
  case True
  then show ?thesis by (simp add: cosine_similarity_def)
next
  case False
  define a where "a = row_norm d X i"
  define b where "b = row_norm d X j"
  from False have a: "0 < a" and b: "0 < b"
    using row_norm_nonneg [of d X i] row_norm_nonneg [of d X j] by (simp_all add: a_def b_def)
  have tm: "X i k / a * (X j k / b) \<le> ((X i k / a)\<^sup>2 + (X j k / b)\<^sup>2) / 2" for k
    using sum_squares_bound [of "X i k / a" "X j k / b"]
    by (simp add: mult.commute mult.left_commute)
  have "dot d X i j / (a * b) = (\<Sum>k<d. X i k / a * (X j k / b))"
    by (simp add: dot_def sum_divide_distrib)
  also have "\<dots> \<le> (\<Sum>k<d. ((X i k / a)\<^sup>2 + (X j k / b)\<^sup>2) / 2)"
    by (rule sum_mono) (rule tm)
  also have "\<dots> = ((\<Sum>k<d. X i k * X i k) / (a * a) + (\<Sum>k<d. X j k * X j k) / (b * b)) / 2"
    by (simp add: sum_divide_distrib [symmetric] sum.distrib power2_eq_square)
  also have "\<dots> = (a * a / (a * a) + b * b / (b * b)) / 2"
    by (simp only: a_def b_def row_norm_square dot_def)
  also have "\<dots> = 1"
    using a b by simp
  finally show ?thesis
    using False by (simp add: cosine_similarity_def a_def b_def)
qed

text \<open>
  C9. The similarity matrix is symmetric: for all record indices \<open>i\<close> and \<open>j\<close>,
  \<open>sim(i,j)\<close> equals \<open>sim(j,i)\<close>; and for every index \<open>i\<close> the diagonal entry
  \<open>sim(i,i)\<close> is the maximum of row \<open>i\<close>: no entry \<open>sim(i,j)\<close> is above it. This
  holds for every matrix of term weights, in exact arithmetic.
\<close>

theorem cosine_similarity_symmetric_diag_max:
  "cosine_similarity d X i j = cosine_similarity d X j i \<and>
   cosine_similarity d X i j \<le> cosine_similarity d X i i"
proof -
  have "cosine_similarity d X i j \<le> cosine_similarity d X i i"
  proof (cases "row_norm d X i = 0")
    case True
    then show ?thesis by (simp add: cosine_similarity_def)
  next
    case False
    then show ?thesis by (simp add: cosine_similarity_diag cosine_similarity_le_1)
  qed
  then show ?thesis using cosine_similarity_commute [of d X i j] by simp
qed

text \<open>
  At \<open>tfidf_ex\<close>: records 0 and 1 have the similarity \<open>1 / sqrt 2\<close> both ways, below the
  diagonal entry 1 of record 0, and the row of record 2, which has no term, is 0
  throughout.
\<close>

theorem cosine_similarity_symmetric_diag_max_witness:
  "cosine_similarity 2 tfidf_ex 0 1 = cosine_similarity 2 tfidf_ex 1 0 \<and>
   cosine_similarity 2 tfidf_ex 0 1 \<le> cosine_similarity 2 tfidf_ex 0 0 \<and>
   cosine_similarity 2 tfidf_ex 0 1 = 1 / sqrt 2 \<and>
   cosine_similarity 2 tfidf_ex 0 0 = 1 \<and>
   cosine_similarity 2 tfidf_ex 2 2 = 0 \<and>
   cosine_similarity 2 tfidf_ex 2 0 = 0"
proof -
  have a: "cosine_similarity 2 tfidf_ex 0 1 = 1 / sqrt 2"
    by (simp add: cosine_similarity_def row_norm_def dot_def tfidf_ex_def lessThan_Suc
        numeral_2_eq_2)
  have b: "cosine_similarity 2 tfidf_ex 0 0 = 1"
    by (simp add: cosine_similarity_def row_norm_def dot_def tfidf_ex_def lessThan_Suc
        numeral_2_eq_2)
  have c: "cosine_similarity 2 tfidf_ex 2 2 = 0"
    by (simp add: cosine_similarity_def row_norm_def dot_def tfidf_ex_def lessThan_Suc
        numeral_2_eq_2)
  have e: "cosine_similarity 2 tfidf_ex 2 0 = 0"
    by (simp add: cosine_similarity_def row_norm_def dot_def tfidf_ex_def lessThan_Suc
        numeral_2_eq_2)
  from cosine_similarity_symmetric_diag_max [of 2 tfidf_ex 0 1] a b c e
  show ?thesis by blast
qed

section \<open>The branches of recommend\<close>

text \<open>
  The keyword branch as the code has it. For a non-empty query whose best score is at most
  80, the call raises when the query does not compile as a regular expression; otherwise
  it returns the no-results header when no search blob passes the compiled test, and else
  the records whose blob passes it, in catalog order, sliced \<open>[:n]\<close>.
\<close>

theorem recommend_keyword_branch:
  assumes "normalize_query query \<noteq> []"
    and "list_all (\<lambda>r. pr (normalize_query query) (search_blob r) \<le> 80) df"
  shows "recommend pr sc df sim query n =
     (case sc (normalize_query query) of
        None \<Rightarrow> Inl RegexError
      | Some test \<Rightarrow>
          if filter (\<lambda>r. test (search_blob r)) df = []
          then Inr (''No dramas found for your search. Try another keyword!'', [])
          else Inr (''Here are some dramas similar to what you searched for:'',
                    py_slice 0 n (filter (\<lambda>r. test (search_blob r)) df)))"
  using assms by (rule recommend_keyword_eq)

theorem recommend_keyword_branch_witness:
  "normalize_query (Some ''.'') \<noteq> [] \<and>
   list_all (\<lambda>r. partial_ratio_ex (normalize_query (Some ''.'')) (search_blob r) \<le> 80) catalog \<and>
   recommend partial_ratio_ex str_contains_ex catalog cosine_sim_ex (Some ''.'') 2 =
     (case str_contains_ex (normalize_query (Some ''.'')) of
        None \<Rightarrow> Inl RegexError
      | Some test \<Rightarrow>
          if filter (\<lambda>r. test (search_blob r)) catalog = []
          then Inr (''No dramas found for your search. Try another keyword!'', [])
          else Inr (''Here are some dramas similar to what you searched for:'',
                    py_slice 0 2 (filter (\<lambda>r. test (search_blob r)) catalog)))"
proof -
  have a: "normalize_query (Some ''.'') \<noteq> []" by code_simp
  have b: "list_all (\<lambda>r. partial_ratio_ex (normalize_query (Some ''.'')) (search_blob r) \<le> 80) catalog"
    by code_simp
  from recommend_keyword_branch
    [where query = "Some ''.''" and pr = partial_ratio_ex and df = catalog
       and sc = str_contains_ex and sim = cosine_sim_ex and n = 2, OF a b] a b
  show ?thesis by blast
qed

text \<open>
  The keyword branch where the library searches the query literally (a query with no
  special character): for a count \<open>n \<ge> 0\<close> the call returns the records whose search
  blob contains the query, in catalog order, cut to the first \<open>n\<close>, and the no-results
  header with no records when there is none.
\<close>

theorem recommend_keyword_literal:
  assumes "normalize_query query = q" and "q \<noteq> []"
    and "list_all (\<lambda>r. pr q (search_blob r) \<le> 80) df"
    and "sc q = Some (py_in q)"
    and "0 \<le> n"
  shows "recommend pr sc df sim query n =
     (if filter (\<lambda>r. py_in q (search_blob r)) df = []
      then Inr (''No dramas found for your search. Try another keyword!'', [])
      else Inr (''Here are some dramas similar to what you searched for:'',
                take (nat n) (filter (\<lambda>r. py_in q (search_blob r)) df)))"
  using recommend_keyword_eq [of query pr df sc sim n] assms
  by (simp add: py_slice_0_take)

theorem recommend_keyword_literal_witness:
  "normalize_query (Some ''QQQ '') = ''qqq'' \<and> ''qqq'' \<noteq> [] \<and>
   list_all (\<lambda>r. partial_ratio_ex ''qqq'' (search_blob r) \<le> 80) catalog \<and>
   str_contains_ex ''qqq'' = Some (py_in ''qqq'') \<and> (0::int) \<le> 5 \<and>
   recommend partial_ratio_ex str_contains_ex catalog cosine_sim_ex (Some ''QQQ '') 5 =
     Inr (''No dramas found for your search. Try another keyword!'', [])"
proof -
  have a: "normalize_query (Some ''QQQ '') = ''qqq''" by code_simp
  have b: "''qqq'' \<noteq> []" by simp
  have c: "list_all (\<lambda>r. partial_ratio_ex ''qqq'' (search_blob r) \<le> 80) catalog" by code_simp
  have d: "str_contains_ex ''qqq'' = Some (py_in ''qqq'')" by (simp add: str_contains_ex_def)
  have e: "(0::int) \<le> 5" by simp
  have f: "filter (\<lambda>r. py_in ''qqq'' (search_blob r)) catalog = []" by code_simp
  from recommend_keyword_literal
    [where query = "Some ''QQQ ''" and q = "''qqq''" and pr = partial_ratio_ex and df = catalog
       and sc = str_contains_ex and sim = cosine_sim_ex and n = 5, OF a b c d e] f
  have "recommend partial_ratio_ex str_contains_ex catalog cosine_sim_ex (Some ''QQQ '') 5 =
     Inr (''No dramas found for your search. Try another keyword!'', [])"
    by simp
  with a b c d e show ?thesis by blast
qed

text \<open>
  The title branch. When some record scores above 80, the matched record \<open>idx\<close> is the
  first record with the best score; the header names its title and the records returned
  are those of entries \<open>[1:n+1]\<close> of its matrix row sorted by similarity, highest
  first, which for \<open>n \<ge> 0\<close> are the \<open>n\<close> entries after the first. The entries
  returned are in non-increasing similarity order.
\<close>

theorem recommend_title_branch:
  assumes "normalize_query query = q" and "q \<noteq> []"
    and "list_ex (\<lambda>r. 80 < pr q (search_blob r)) df"
    and "idx = fst (hd (fuzzy_matches pr df q))"
  shows "idx < length df \<and> 80 < pr q (search_blob (df ! idx)) \<and>
         list_all (\<lambda>r. pr q (search_blob r) \<le> pr q (search_blob (df ! idx))) df \<and>
         list_all (\<lambda>j. pr q (search_blob (df ! j)) < pr q (search_blob (df ! idx))) [0..<idx] \<and>
         recommend pr sc df sim query n =
           Inr (''If you liked <b>'' @ title_str (df ! idx) @ ''</b>, you might also enjoy:'',
                map (\<lambda>x. df ! fst x) (py_slice 1 (n + 1) (similar_sorted sim df idx))) \<and>
         sorted_wrt (\<lambda>a b. snd b \<le> snd a) (py_slice 1 (n + 1) (similar_sorted sim df idx)) \<and>
         list_all (\<lambda>x. fst x < length df \<and> snd x = sim idx (fst x))
           (py_slice 1 (n + 1) (similar_sorted sim df idx)) \<and>
         (0 \<le> n \<longrightarrow>
            py_slice 1 (n + 1) (similar_sorted sim df idx) =
              take (nat n) (tl (similar_sorted sim df idx)))"
proof -
  have q: "normalize_query query \<noteq> []" using assms(1,2) by simp
  have strong: "list_ex (\<lambda>r. 80 < pr (normalize_query query) (search_blob r)) df"
    using assms(1,3) by simp
  have idx: "idx = fst (hd (fuzzy_matches pr df (normalize_query query)))"
    using assms(1,4) by simp
  note t = recommend_title_eq [OF q strong idx]
  have ne: "df \<noteq> []" using t(1) by auto
  note b = fuzzy_matches_best [where pr = pr and q = q, OF ne]
  have yes: "fuzzy_matches pr df q \<noteq> [] \<and> 80 < snd (hd (fuzzy_matches pr df q))"
    using assms(3) by (simp only: strong_match_iff)
  have 1: "80 < pr q (search_blob (df ! idx))" using yes b(2) assms(4) by simp
  have 2: "list_all (\<lambda>r. pr q (search_blob r) \<le> pr q (search_blob (df ! idx))) df"
    using b(3) assms(4) by (auto simp: list_all_iff in_set_conv_nth)
  have 3: "list_all (\<lambda>j. pr q (search_blob (df ! j)) < pr q (search_blob (df ! idx))) [0..<idx]"
    using b(4) assms(4) by (auto simp: list_all_iff)
  have 4: "sorted_wrt (\<lambda>a b. snd b \<le> snd a) (py_slice 1 (n + 1) (similar_sorted sim df idx))"
    by (intro sorted_wrt_py_slice similar_sorted_descending)
  have 5: "list_all (\<lambda>x. fst x < length df \<and> snd x = sim idx (fst x))
           (py_slice 1 (n + 1) (similar_sorted sim df idx))"
    using similar_sorted_entries [of df sim idx]
      set_py_slice [of 1 "n + 1" "similar_sorted sim df idx"]
    by (auto simp: list_all_iff)
  have 6: "0 \<le> n \<longrightarrow> py_slice 1 (n + 1) (similar_sorted sim df idx) =
              take (nat n) (tl (similar_sorted sim df idx))"
    by (simp add: py_slice_1_take_tl)
  from t 1 2 3 4 5 6 show ?thesis by blast
qed

theorem recommend_title_branch_witness:
  "normalize_query (Some '' Milk'') = ''milk'' \<and> ''milk'' \<noteq> [] \<and>
   list_ex (\<lambda>r. 80 < partial_ratio_ex ''milk'' (search_blob r)) catalog \<and>
   (0::nat) = fst (hd (fuzzy_matches partial_ratio_ex catalog ''milk'')) \<and>
   (0::int) \<le> 1 \<and>
   recommend partial_ratio_ex str_contains_ex catalog cosine_sim_ex (Some '' Milk'') 1 =
     Inr (''If you liked <b>'' @ title_str (catalog ! 0) @ ''</b>, you might also enjoy:'',
          map (\<lambda>x. catalog ! fst x) (py_slice 1 (1 + 1) (similar_sorted cosine_sim_ex catalog 0))) \<and>
   py_slice 1 (1 + 1) (similar_sorted cosine_sim_ex catalog 0) =
     take (nat 1) (tl (similar_sorted cosine_sim_ex catalog 0)) \<and>
   take (nat 1) (tl (similar_sorted cosine_sim_ex catalog 0)) = [(1, 1)]"
proof -
  have a: "normalize_query (Some '' Milk'') = ''milk''" by code_simp
  have b: "''milk'' \<noteq> []" by simp
  have c: "list_ex (\<lambda>r. 80 < partial_ratio_ex ''milk'' (search_blob r)) catalog" by code_simp
  have d: "(0::nat) = fst (hd (fuzzy_matches partial_ratio_ex catalog ''milk''))" by code_simp
  have e: "(0::int) \<le> 1" by simp
  have f: "take (nat 1) (tl (similar_sorted cosine_sim_ex catalog 0)) = [(1, 1)]" by code_simp
  from recommend_title_branch
    [where query = "Some '' Milk''" and q = "''milk''" and pr = partial_ratio_ex
       and df = catalog and idx = 0 and sc = str_contains_ex and sim = cosine_sim_ex and n = 1,
     OF a b c d] a b c d e f
  show ?thesis by blast
qed

text \<open>
  The matched record is left out of its own recommendations whenever it comes first in
  its sorted row: no record is more similar to it than itself, and none before it in the
  catalog is equally similar. No record is recommended twice.
\<close>

theorem recommend_title_excludes_match:
  assumes "normalize_query query = q" and "q \<noteq> []"
    and "list_ex (\<lambda>r. 80 < pr q (search_blob r)) df"
    and "idx = fst (hd (fuzzy_matches pr df q))"
    and "list_all (\<lambda>j. sim idx j \<le> sim idx idx) [0..<length df]"
    and "list_all (\<lambda>j. sim idx j < sim idx idx) [0..<idx]"
    and "recommended_indices = map fst (py_slice 1 (n + 1) (similar_sorted sim df idx))"
  shows "recommend pr sc df sim query n =
           Inr (''If you liked <b>'' @ title_str (df ! idx) @ ''</b>, you might also enjoy:'',
                map (\<lambda>i. df ! i) recommended_indices) \<and>
         idx \<notin> set recommended_indices \<and> distinct recommended_indices"
proof -
  have q: "normalize_query query \<noteq> []" using assms(1,2) by simp
  have strong: "list_ex (\<lambda>r. 80 < pr (normalize_query query) (search_blob r)) df"
    using assms(1,3) by simp
  have idx: "idx = fst (hd (fuzzy_matches pr df (normalize_query query)))"
    using assms(1,4) by simp
  note t = recommend_title_eq [OF q strong idx]
  have mx: "\<And>j. j < length df \<Longrightarrow> sim idx j \<le> sim idx idx"
    using assms(5) by (simp add: list_all_iff)
  have first: "\<And>j. j < idx \<Longrightarrow> sim idx j < sim idx idx"
    using assms(6) by (simp add: list_all_iff)
  have h: "hd (similar_sorted sim df idx) = (idx, sim idx idx)"
    using t(1) mx first by (rule similar_sorted_hd)
  have 1: "idx \<notin> set recommended_indices"
    using similar_sorted_slice_excludes [OF t(1) h, of "n + 1"] assms(7) by simp
  have "distinct (map fst (py_slice 1 (n + 1) (similar_sorted sim df idx)))"
    unfolding py_slice_map by (intro distinct_py_slice distinct_fst_similar_sorted)
  then have 2: "distinct recommended_indices" using assms(7) by simp
  have 3: "recommend pr sc df sim query n =
           Inr (''If you liked <b>'' @ title_str (df ! idx) @ ''</b>, you might also enjoy:'',
                map (\<lambda>i. df ! i) recommended_indices)"
    using t(2) [of sc sim n] assms(7) by (simp add: comp_def)
  from 1 2 3 show ?thesis by blast
qed

theorem recommend_title_excludes_match_witness:
  "normalize_query (Some '' Milk'') = ''milk'' \<and> ''milk'' \<noteq> [] \<and>
   list_ex (\<lambda>r. 80 < partial_ratio_ex ''milk'' (search_blob r)) catalog \<and>
   (0::nat) = fst (hd (fuzzy_matches partial_ratio_ex catalog ''milk'')) \<and>
   list_all (\<lambda>j. cosine_sim_ex 0 j \<le> cosine_sim_ex 0 0) [0..<length catalog] \<and>
   list_all (\<lambda>j. cosine_sim_ex 0 j < cosine_sim_ex 0 0) [0..<0] \<and>
   [1, 2] = map fst (py_slice 1 (5 + 1) (similar_sorted cosine_sim_ex catalog 0)) \<and>
   recommend partial_ratio_ex str_contains_ex catalog cosine_sim_ex (Some '' Milk'') 5 =
     Inr (''If you liked <b>'' @ title_str (catalog ! 0) @ ''</b>, you might also enjoy:'',
          map (\<lambda>i. catalog ! i) [1, 2]) \<and>
   (0::nat) \<notin> set [1, 2]"
proof -
  have a: "normalize_query (Some '' Milk'') = ''milk''" by code_simp
  have b: "''milk'' \<noteq> []" by simp
  have c: "list_ex (\<lambda>r. 80 < partial_ratio_ex ''milk'' (search_blob r)) catalog" by code_simp
  have d: "(0::nat) = fst (hd (fuzzy_matches partial_ratio_ex catalog ''milk''))" by code_simp
  have e: "list_all (\<lambda>j. cosine_sim_ex 0 j \<le> cosine_sim_ex 0 0) [0..<length catalog]"
    by code_simp
  have f: "list_all (\<lambda>j. cosine_sim_ex 0 j < cosine_sim_ex 0 0) [0..<0]" by simp
  have g: "[1, 2] = map fst (py_slice 1 (5 + 1) (similar_sorted cosine_sim_ex catalog 0))"
    by code_simp
  from recommend_title_excludes_match
    [where query = "Some '' Milk''" and q = "''milk''" and pr = partial_ratio_ex
       and df = catalog and idx = 0 and sc = str_contains_ex and sim = cosine_sim_ex and n = 5
       and recommended_indices = "[1, 2]",
     OF a b c d e f g] a b c d e f g
  show ?thesis by blast
qed

section \<open>The claims on the branches at concrete inputs\<close>

text \<open>
  C1 at a failing input. The matched record is dropped from its own recommendations by
  skipping the first entry of its sorted row. \<open>drama_a\<close> is as similar to \<open>drama_b\<close>
  as \<open>drama_b\<close> is to itself and comes earlier in the catalog, so for the query "SOTUS"
  the entry skipped is \<open>drama_a\<close>, and \<open>drama_b\<close> is recommended to its own fans.
\<close>

theorem recommend_title_match_returns_self:
  "80 < partial_ratio_ex (normalize_query (Some ''SOTUS'')) (search_blob drama_b) \<and>
   fst (hd (fuzzy_matches partial_ratio_ex catalog (normalize_query (Some ''SOTUS'')))) = 1 \<and>
   catalog ! 1 = drama_b \<and>
   recommend partial_ratio_ex str_contains_ex catalog cosine_sim_ex (Some ''SOTUS'') 5 =
     Inr (''If you liked <b>SOTUS</b>, you might also enjoy:'', [drama_b, drama_c])"
  by code_simp

text \<open>
  C2 at a failing input. The keyword filter is a regular-expression search. No search
  blob contains the query "." and no score exceeds 80, yet every record is returned.
\<close>

theorem recommend_keyword_dot:
  "list_all (\<lambda>r. partial_ratio_ex (normalize_query (Some ''.'')) (search_blob r) \<le> 80) catalog \<and>
   filter (\<lambda>r. py_in ''.'' (search_blob r)) catalog = [] \<and>
   recommend partial_ratio_ex str_contains_ex catalog cosine_sim_ex (Some ''.'') 5 =
     Inr (''Here are some dramas similar to what you searched for:'',
          [drama_a, drama_b, drama_c])"
  by code_simp

text \<open>
  C5 at a failing input. No search blob contains the query "(" and no score exceeds 80;
  the pattern does not compile, and the call raises instead of returning the no-results
  header.
\<close>

theorem recommend_keyword_paren_raises:
  "list_all (\<lambda>r. partial_ratio_ex (normalize_query (Some ''('')) (search_blob r) \<le> 80) catalog \<and>
   filter (\<lambda>r. py_in ''('' (search_blob r)) catalog = [] \<and>
   recommend partial_ratio_ex str_contains_ex catalog cosine_sim_ex (Some ''('') 5 =
     Inl RegexError"
  by code_simp

end
